theory Spec2Isabelle
  imports Main
begin

section \<open>Host interfaces consumed by the component\<close>

text \<open>
  The component \<^verbatim>\<open>CameraCapture\<close> (src/components/CameraCapture.tsx) talks to the browser:
  \<^verbatim>\<open>navigator.mediaDevices\<close>, media streams and their tracks, a video and a canvas element,
  the clock and the download link. What the browser answers is an input of the model; what
  the component asks of it is recorded, in order, in \<open>hostCalls\<close>.
\<close>

datatype mediaDeviceKind = Audioinput | Audiooutput | Videoinput

record mediaDeviceInfo =
  info_kind :: mediaDeviceKind
  info_deviceId :: string
  info_label :: string

text \<open>A capability range \<^verbatim>\<open>{min, max}\<close>; either bound may be missing.\<close>

record ulongRange =
  range_min :: "nat option"
  range_max :: "nat option"

text \<open>\<^verbatim>\<open>track.getCapabilities()\<close>: the \<^verbatim>\<open>width\<close> and \<^verbatim>\<open>height\<close> members may be missing.\<close>

record mediaTrackCapabilities =
  cap_width :: "ulongRange option"
  cap_height :: "ulongRange option"

datatype trackKind = AudioTrack | VideoTrack

record mediaStreamTrack =
  track_id :: nat
  track_kind :: trackKind
  getCapabilities :: mediaTrackCapabilities

record mediaStream =
  stream_id :: nat
  getTracks :: "mediaStreamTrack list"

definition getVideoTracks :: "mediaStream \<Rightarrow> mediaStreamTrack list" where
  "getVideoTracks m = filter (\<lambda>t. track_kind t = VideoTrack) (getTracks m)"

text \<open>
  The \<^verbatim>\<open><video>\<close> element behind \<^verbatim>\<open>videoRef\<close> and the \<^verbatim>\<open><canvas>\<close> behind \<^verbatim>\<open>canvasRef\<close>. Which
  of them is mounted is decided by the markup at each render (\<open>commit\<close> below): the video
  element only while no captured image is shown (lines 187 to 201), the canvas always
  (line 214).
\<close>

record video =
  videoWidth :: nat
  videoHeight :: nat
  currentFrame :: string
  srcObject :: "mediaStream option"

record canvas =
  canvas_width :: nat
  canvas_height :: nat
  has2d :: bool \<comment> \<open>whether \<^verbatim>\<open>getContext('2d')\<close> returns a context\<close>
  drawn :: "(string \<times> nat \<times> nat) option" \<comment> \<open>the last \<^verbatim>\<open>drawImage\<close>: frame, width, height\<close>

text \<open>The requests the component issues to the browser, in the order it issues them.\<close>

datatype hostCall =
  StopTrack nat \<comment> \<open>\<^verbatim>\<open>track.stop()\<close>\<close>
  | GetUserMedia "string option" nat nat \<comment> \<open>exact device id, ideal width, ideal height\<close>
  | Download string string \<comment> \<open>\<^verbatim>\<open>link.click()\<close>: file name, href\<close>

record host =
  videoRef :: "video option"
  canvasRef :: "canvas option"
  liveTracks :: "nat set" \<comment> \<open>ids of the tracks that are live (not stopped)\<close>
  hostCalls :: "hostCall list"

text \<open>
  A \<^verbatim>\<open>Date\<close>, held as the UTC fields that \<^verbatim>\<open>toISOString\<close> prints.
\<close>

record date =
  date_year :: int
  date_month :: nat
  date_day :: nat
  date_hours :: nat
  date_minutes :: nat
  date_seconds :: nat
  date_milliseconds :: nat

definition digit :: "nat \<Rightarrow> char" where
  "digit n = ''0123456789'' ! (n mod 10)"

definition pad2 :: "nat \<Rightarrow> string" where
  "pad2 n = [digit (n div 10), digit n]"

definition pad3 :: "nat \<Rightarrow> string" where
  "pad3 n = [digit (n div 100), digit (n div 10), digit n]"

definition pad4 :: "nat \<Rightarrow> string" where
  "pad4 n = [digit (n div 1000), digit (n div 100), digit (n div 10), digit n]"

definition pad6 :: "nat \<Rightarrow> string" where
  "pad6 n = [digit (n div 100000), digit (n div 10000), digit (n div 1000),
             digit (n div 100), digit (n div 10), digit n]"

text \<open>
  \<^verbatim>\<open>Date.prototype.toISOString\<close> of the language standard: \<^verbatim>\<open>YYYY-MM-DDTHH:mm:ss.sssZ\<close>, the
  year with four digits from 0 to 9999 and with a sign and six digits outside.
\<close>

definition isoYear :: "int \<Rightarrow> string" where
  "isoYear y =
     (if 0 \<le> y \<and> y \<le> 9999 then pad4 (nat y)
      else (if y < 0 then ''-'' else ''+'') @ pad6 (nat \<bar>y\<bar>))"

definition toISOString :: "date \<Rightarrow> string" where
  "toISOString d =
     isoYear (date_year d) @ ''-'' @ pad2 (date_month d) @ ''-'' @ pad2 (date_day d) @ ''T''
       @ pad2 (date_hours d) @ '':'' @ pad2 (date_minutes d) @ '':'' @ pad2 (date_seconds d)
       @ ''.'' @ pad3 (date_milliseconds d) @ ''Z''"

text \<open>\<^verbatim>\<open>str.replace(/:/g, '-')\<close>.\<close>

definition replaceColons :: "string \<Rightarrow> string" where
  "replaceColons str = map (\<lambda>c. if c = CHR '':'' then CHR ''-'' else c) str"

section \<open>Component state\<close>

record CameraDevice =
  deviceId :: string
  label :: string

record CameraCapabilities =
  width :: nat
  height :: nat

text \<open>The seven \<^verbatim>\<open>useState\<close> cells of the component (lines 16 to 22).\<close>

record session =
  cameras :: "CameraDevice list"
  selectedCamera :: string
  stream :: "mediaStream option"
  capturedImage :: "string option"
  isLoading :: bool
  error :: "string option"
  cameraCapabilities :: "CameraCapabilities option"

definition initialSession :: session where
  "initialSession =
     \<lparr>cameras = [], selectedCamera = [], stream = None, capturedImage = None,
      isLoading = False, error = None, cameraCapabilities = None\<rparr>"

section \<open>Device discovery: \<^verbatim>\<open>getCameras\<close> (lines 28 to 48)\<close>

text \<open>\<^verbatim>\<open>device.label || `Camera ${device.deviceId.slice(0, 8)}...`\<close>: an empty label is falsy.\<close>

definition toCameraDevice :: "mediaDeviceInfo \<Rightarrow> CameraDevice" where
  "toCameraDevice device =
     \<lparr>deviceId = info_deviceId device,
      label = (if info_label device \<noteq> [] then info_label device
               else ''Camera '' @ take 8 (info_deviceId device) @ ''...'')\<rparr>"

text \<open>
  The answer of \<^verbatim>\<open>enumerateDevices()\<close> is \<open>Inl ()\<close> when the promise rejects and \<open>Inr devices\<close>
  when it resolves.
\<close>

definition getCameras :: "unit + mediaDeviceInfo list \<Rightarrow> session \<Rightarrow> session" where
  "getCameras response s =
     (case response of
        Inl _ \<Rightarrow> s\<lparr>error := Some ''Failed to enumerate cameras''\<rparr>
      | Inr devices \<Rightarrow>
          (let videoDevices = filter (\<lambda>device. info_kind device = Videoinput) devices;
               s1 = s\<lparr>cameras := map toCameraDevice videoDevices\<rparr>
           in case videoDevices of
                [] \<Rightarrow> s1
              | first # _ \<Rightarrow> s1\<lparr>selectedCamera := info_deviceId first\<rparr>))"

section \<open>Stream lifecycle: \<^verbatim>\<open>startCamera\<close> (lines 50 to 91)\<close>

text \<open>\<^verbatim>\<open>stream.getTracks().forEach(track => track.stop())\<close>.\<close>

definition stopTracks :: "mediaStream \<Rightarrow> host \<Rightarrow> host" where
  "stopTracks m h =
     h\<lparr>liveTracks := liveTracks h - set (map track_id (getTracks m)),
       hostCalls := hostCalls h @ map (\<lambda>t. StopTrack (track_id t)) (getTracks m)\<rparr>"

text \<open>Lines 51 to 53: the tracks of the stream the session holds are stopped.\<close>

definition releasePrevious :: "session \<times> host \<Rightarrow> host" where
  "releasePrevious sh =
     (case stream (fst sh) of Some old \<Rightarrow> stopTracks old (snd sh) | None \<Rightarrow> snd sh)"

text \<open>\<^verbatim>\<open>if (videoRef.current) videoRef.current.srcObject = mediaStream\<close>.\<close>

definition bindPreview :: "mediaStream \<Rightarrow> host \<Rightarrow> host" where
  "bindPreview m h =
     (case videoRef h of
        None \<Rightarrow> h
      | Some v \<Rightarrow> h\<lparr>videoRef := Some (v\<lparr>srcObject := Some m\<rparr>)\<rparr>)"

text \<open>\<^verbatim>\<open>x || d\<close> on an optional number: a missing value and 0 are falsy.\<close>

definition orElse :: "nat option \<Rightarrow> nat \<Rightarrow> nat" where
  "orElse v d = (case v of None \<Rightarrow> d | Some n \<Rightarrow> if n = 0 then d else n)"

text \<open>Lines 78 to 83: the capabilities are stored only when both ranges are reported.\<close>

definition storeCapabilities :: "mediaTrackCapabilities \<Rightarrow> session \<Rightarrow> session" where
  "storeCapabilities capabilities s =
     (case cap_width capabilities of
        None \<Rightarrow> s
      | Some w \<Rightarrow>
          (case cap_height capabilities of
             None \<Rightarrow> s
           | Some hh \<Rightarrow>
               s\<lparr>cameraCapabilities :=
                   Some \<lparr>width = orElse (range_max w) 1920,
                         height = orElse (range_max hh) 1080\<rparr>\<rparr>))"

text \<open>\<^verbatim>\<open>deviceId: selectedCamera ? { exact: selectedCamera } : undefined\<close>, ideal 1920 by 1080.\<close>

definition streamRequest :: "session \<Rightarrow> hostCall" where
  "streamRequest s =
     GetUserMedia (if selectedCamera s \<noteq> [] then Some (selectedCamera s) else None) 1920 1080"

text \<open>
  \<^verbatim>\<open>startCamera\<close> suspends once, at the \<^verbatim>\<open>await\<close> of line 59. Up to there (lines 51 to 65) it
  stops the tracks of the stream it holds, sets the loading flag, clears the error and issues
  the request.
\<close>

definition startCamera_request :: "session \<times> host \<Rightarrow> session \<times> host" where
  "startCamera_request sh =
     (let s = fst sh;
          h1 = releasePrevious sh
      in (s\<lparr>isLoading := True, error := None\<rparr>,
          h1\<lparr>hostCalls := hostCalls h1 @ [streamRequest s]\<rparr>))"

text \<open>
  When the host answers, the function resumes (lines 67 to 90) on the session and host of
  that moment. The answer of \<^verbatim>\<open>getUserMedia\<close> is \<open>Inl ()\<close> when the promise rejects and
  \<open>Inr mediaStream\<close> when it resolves; the tracks of a stream just granted are live. Reading
  \<^verbatim>\<open>getVideoTracks()[0]\<close> of a stream without video track gives \<^verbatim>\<open>undefined\<close>, and the call
  of \<^verbatim>\<open>getCapabilities\<close> on it throws into the \<^verbatim>\<open>catch\<close> block. The \<^verbatim>\<open>finally\<close> block runs
  on every path.
\<close>

definition startCamera_resume :: "unit + mediaStream \<Rightarrow> session \<times> host \<Rightarrow> session \<times> host" where
  "startCamera_resume response sh =
     (let s = fst sh; h = snd sh
      in case response of
           Inl _ \<Rightarrow> (s\<lparr>error := Some ''Failed to start camera'', isLoading := False\<rparr>, h)
         | Inr mediaStream \<Rightarrow>
             (let h1 = h\<lparr>liveTracks :=
                         liveTracks h \<union> set (map track_id (getTracks mediaStream))\<rparr>;
                  s1 = s\<lparr>stream := Some mediaStream\<rparr>;
                  h2 = bindPreview mediaStream h1
              in case getVideoTracks mediaStream of
                   [] \<Rightarrow> (s1\<lparr>error := Some ''Failed to start camera'', isLoading := False\<rparr>, h2)
                 | track # _ \<Rightarrow>
                     ((storeCapabilities (getCapabilities track) s1)\<lparr>isLoading := False\<rparr>, h2)))"

text \<open>A call of \<^verbatim>\<open>startCamera\<close> that is answered before anything else happens.\<close>

definition startCamera :: "unit + mediaStream \<Rightarrow> session \<times> host \<Rightarrow> session \<times> host" where
  "startCamera response sh = startCamera_resume response (startCamera_request sh)"

text \<open>
  Selecting a device (line 158) stores the selection; the effect of lines 94 to 98 runs
  \<^verbatim>\<open>startCamera\<close> when the selection has changed and is not empty.
\<close>

definition selectDevice :: "string \<Rightarrow> unit + mediaStream \<Rightarrow> session \<times> host \<Rightarrow> session \<times> host" where
  "selectDevice d response sh =
     (let s1 = (fst sh)\<lparr>selectedCamera := d\<rparr>
      in if d \<noteq> selectedCamera (fst sh) \<and> d \<noteq> [] then startCamera response (s1, snd sh)
         else (s1, snd sh))"

text \<open>The same selection up to the \<^verbatim>\<open>await\<close>: the request is issued and not yet answered.\<close>

definition selectDevice_request :: "string \<Rightarrow> session \<times> host \<Rightarrow> session \<times> host" where
  "selectDevice_request d sh =
     (let s1 = (fst sh)\<lparr>selectedCamera := d\<rparr>
      in if d \<noteq> selectedCamera (fst sh) \<and> d \<noteq> [] then startCamera_request (s1, snd sh)
         else (s1, snd sh))"

section \<open>Capture and export (lines 100 to 146)\<close>

text \<open>
  Assigning a number to \<^verbatim>\<open>canvas.width\<close> or \<^verbatim>\<open>canvas.height\<close>: the number is converted to an
  unsigned 32-bit integer (modulo \<open>2 ^ 32\<close>), and a value above 2147483647 is replaced by the
  default of the attribute, 300 for the width and 150 for the height.
\<close>

definition setCanvasSize :: "nat \<Rightarrow> nat \<Rightarrow> nat" where
  "setCanvasSize dflt n = (if n mod 4294967296 \<le> 2147483647 then n mod 4294967296 else dflt)"

text \<open>
  \<^verbatim>\<open>capturePhoto\<close>. The encoder \<^verbatim>\<open>canvas.toDataURL('image/png', 1.0)\<close> belongs to the browser and
  is a parameter. \<^verbatim>\<open>drawImage\<close> is called with the width and height read back from the canvas.
\<close>

definition capturePhoto :: "(canvas \<Rightarrow> string) \<Rightarrow> session \<times> host \<Rightarrow> session \<times> host" where
  "capturePhoto toDataURL sh =
     (let s = fst sh; h = snd sh
      in case videoRef h of
           None \<Rightarrow> sh
         | Some video \<Rightarrow>
             (case canvasRef h of
                None \<Rightarrow> sh
              | Some canvas \<Rightarrow>
                  (case stream s of
                     None \<Rightarrow> sh
                   | Some _ \<Rightarrow>
                       if \<not> has2d canvas then sh
                       else
                         (let w = (case cameraCapabilities s of
                                     Some c \<Rightarrow> width c | None \<Rightarrow> videoWidth video);
                              ht = (case cameraCapabilities s of
                                      Some c \<Rightarrow> height c | None \<Rightarrow> videoHeight video);
                              canvas1 = canvas\<lparr>canvas_width := setCanvasSize 300 w,
                                               canvas_height := setCanvasSize 150 ht\<rparr>;
                              canvas2 = canvas1\<lparr>drawn :=
                                          Some (currentFrame video, canvas_width canvas1,
                                                canvas_height canvas1)\<rparr>
                          in (s\<lparr>capturedImage := Some (toDataURL canvas2)\<rparr>,
                              h\<lparr>canvasRef := Some canvas2\<rparr>)))))"

text \<open>The file name of line 131, from the value of \<^verbatim>\<open>new Date()\<close> at the call.\<close>

definition downloadName :: "date \<Rightarrow> string" where
  "downloadName now = ''camera-capture-'' @ replaceColons (take 19 (toISOString now)) @ ''.png''"

text \<open>\<^verbatim>\<open>downloadPhoto\<close>: \<^verbatim>\<open>!capturedImage\<close> holds for \<^verbatim>\<open>null\<close> and for the empty string.\<close>

definition downloadPhoto :: "date \<Rightarrow> session \<times> host \<Rightarrow> session \<times> host" where
  "downloadPhoto now sh =
     (case capturedImage (fst sh) of
        None \<Rightarrow> sh
      | Some img \<Rightarrow>
          if img = [] then sh
          else (fst sh,
                (snd sh)\<lparr>hostCalls := hostCalls (snd sh) @ [Download (downloadName now) img]\<rparr>))"

definition retakePhoto :: "session \<times> host \<Rightarrow> session \<times> host" where
  "retakePhoto sh = ((fst sh)\<lparr>capturedImage := None\<rparr>, snd sh)"

definition stopCamera :: "session \<times> host \<Rightarrow> session \<times> host" where
  "stopCamera sh =
     (let s = fst sh; h = snd sh;
          s1 = (case stream s of Some _ \<Rightarrow> s\<lparr>stream := None\<rparr> | None \<Rightarrow> s);
          h1 = (case stream s of Some m \<Rightarrow> stopTracks m h | None \<Rightarrow> h)
      in (s1\<lparr>capturedImage := None\<rparr>, h1))"

section \<open>Rendering (lines 187 to 214)\<close>

text \<open>\<^verbatim>\<open>!capturedImage\<close> fails when an image is stored and is not the empty string.\<close>

definition showsImage :: "session \<Rightarrow> bool" where
  "showsImage s = (case capturedImage s of None \<Rightarrow> False | Some img \<Rightarrow> img \<noteq> [])"

text \<open>
  After a handler has run the page renders again. While an image is shown the \<^verbatim>\<open><img>\<close>
  element stands in place of the \<^verbatim>\<open><video>\<close> element and \<^verbatim>\<open>videoRef.current\<close> is \<^verbatim>\<open>null\<close>; when
  no image is shown and no video element is mounted, a new one is mounted, bound to no
  stream and without a frame. A mounted video element stays the same element.
\<close>

definition commit :: "session \<times> host \<Rightarrow> session \<times> host" where
  "commit sh =
     (if showsImage (fst sh) then (fst sh, (snd sh)\<lparr>videoRef := None\<rparr>)
      else case videoRef (snd sh) of
             Some _ \<Rightarrow> sh
           | None \<Rightarrow>
               (fst sh,
                (snd sh)\<lparr>videoRef := Some \<lparr>videoWidth = 0, videoHeight = 0, currentFrame = [],
                                            srcObject = None\<rparr>\<rparr>))"

section \<open>Sequences of user intents\<close>

text \<open>Each intent runs its handler to the end, and the page renders.\<close>

datatype intent =
  SelectDevice string "unit + mediaStream"
  | StartStream "unit + mediaStream"
  | CapturePhoto
  | RetakePhoto
  | StopCamera

fun perform :: "(canvas \<Rightarrow> string) \<Rightarrow> session \<times> host \<Rightarrow> intent \<Rightarrow> session \<times> host" where
  "perform enc sh (SelectDevice d response) = commit (selectDevice d response sh)"
| "perform enc sh (StartStream response) = commit (startCamera response sh)"
| "perform enc sh CapturePhoto = commit (capturePhoto enc sh)"
| "perform enc sh RetakePhoto = commit (retakePhoto sh)"
| "perform enc sh StopCamera = commit (stopCamera sh)"

definition performAll :: "(canvas \<Rightarrow> string) \<Rightarrow> session \<times> host \<Rightarrow> intent list \<Rightarrow> session \<times> host" where
  "performAll enc sh intents = foldl (perform enc) sh intents"

text \<open>Every live track belongs to the stream the session holds.\<close>

definition ownedTracks :: "session \<Rightarrow> nat set" where
  "ownedTracks s = (case stream s of None \<Rightarrow> {} | Some m \<Rightarrow> set (map track_id (getTracks m)))"

definition singleStream :: "session \<times> host \<Rightarrow> bool" where
  "singleStream sh = (liveTracks (snd sh) \<subseteq> ownedTracks (fst sh))"

section \<open>Example inputs\<close>

definition deviceA :: mediaDeviceInfo where
  "deviceA = \<lparr>info_kind = Videoinput, info_deviceId = ''a'', info_label = ''''\<rparr>"

definition deviceB :: mediaDeviceInfo where
  "deviceB = \<lparr>info_kind = Videoinput, info_deviceId = ''b'', info_label = ''Front''\<rparr>"

definition hdTrack :: mediaStreamTrack where
  "hdTrack =
     \<lparr>track_id = 1, track_kind = VideoTrack,
      getCapabilities =
        \<lparr>cap_width = Some \<lparr>range_min = Some 1, range_max = Some 1280\<rparr>,
         cap_height = Some \<lparr>range_min = Some 1, range_max = Some 720\<rparr>\<rparr>\<rparr>"

definition bareTrack :: mediaStreamTrack where
  "bareTrack =
     \<lparr>track_id = 2, track_kind = VideoTrack,
      getCapabilities = \<lparr>cap_width = None, cap_height = None\<rparr>\<rparr>"

definition hdStream :: mediaStream where
  "hdStream = \<lparr>stream_id = 1, getTracks = [hdTrack]\<rparr>"

definition bareStream :: mediaStream where
  "bareStream = \<lparr>stream_id = 2, getTracks = [bareTrack]\<rparr>"

definition pageHost :: host where
  "pageHost =
     \<lparr>videoRef = Some \<lparr>videoWidth = 640, videoHeight = 480, currentFrame = ''frame'',
                        srcObject = None\<rparr>,
      canvasRef = Some \<lparr>canvas_width = 300, canvas_height = 150, has2d = True, drawn = None\<rparr>,
      liveTracks = {}, hostCalls = []\<rparr>"

text \<open>The session and host after the camera \<open>a\<close> has been started with \<open>hdStream\<close>.\<close>

definition liveSession :: "session \<times> host" where
  "liveSession = startCamera (Inr hdStream) (initialSession\<lparr>selectedCamera := ''a''\<rparr>, pageHost)"

definition captureTime :: date where
  "captureTime =
     \<lparr>date_year = 2024, date_month = 1, date_day = 1, date_hours = 12, date_minutes = 0,
      date_seconds = 0, date_milliseconds = 0\<rparr>"

definition downloadTime :: date where
  "downloadTime =
     \<lparr>date_year = 2024, date_month = 1, date_day = 1, date_hours = 12, date_minutes = 5,
      date_seconds = 30, date_milliseconds = 250\<rparr>"

definition secondPng :: "canvas \<Rightarrow> string" where
  "secondPng c = ''data:image/png;base64,second''"

definition pngOf :: "canvas \<Rightarrow> string" where
  "pngOf c = ''data:image/png;base64,'' @ (case drawn c of None \<Rightarrow> [] | Some (f, w, ht) \<Rightarrow> f)"

section \<open>Evaluation of the example inputs\<close>

lemma liveSession_eval:
  "liveSession =
     (\<lparr>cameras = [], selectedCamera = ''a'', stream = Some hdStream, capturedImage = None,
       isLoading = False, error = None,
       cameraCapabilities = Some \<lparr>width = 1280, height = 720\<rparr>\<rparr>,
      \<lparr>videoRef = Some \<lparr>videoWidth = 640, videoHeight = 480, currentFrame = ''frame'',
                         srcObject = Some hdStream\<rparr>,
       canvasRef = Some \<lparr>canvas_width = 300, canvas_height = 150, has2d = True, drawn = None\<rparr>,
       liveTracks = {1}, hostCalls = [GetUserMedia (Some ''a'') 1920 1080]\<rparr>)"
  by (simp add: liveSession_def startCamera_def startCamera_request_def startCamera_resume_def releasePrevious_def initialSession_def pageHost_def hdStream_def
      hdTrack_def getVideoTracks_def storeCapabilities_def orElse_def bindPreview_def
      streamRequest_def Let_def)

lemma capturedSession_eval:
  "capturedImage (fst (capturePhoto pngOf liveSession)) = Some ''data:image/png;base64,frame''"
  by (simp add: liveSession_eval capturePhoto_def setCanvasSize_def Let_def pngOf_def)

section \<open>A rejected stream request\<close>

lemma startCamera_rejected:
  "fst (startCamera (Inl e) sh) =
     (fst sh)\<lparr>isLoading := False, error := Some ''Failed to start camera''\<rparr>"
  by (simp add: startCamera_def startCamera_request_def startCamera_resume_def releasePrevious_def Let_def)

text \<open>
  C1. The claim: when the host rejects the stream request, the session afterwards has the
  error message set, \<open>isLoading\<close> false, no stream and the selection unchanged, also when a
  stream was open at the call. Evaluated on the session \<open>liveSession\<close>, which holds the open
  stream \<open>hdStream\<close>: the message, the flag and the selection are as claimed and the tracks of
  \<open>hdStream\<close> are stopped, but the \<open>stream\<close> cell still holds \<open>hdStream\<close>. Lines 51 to 53 stop
  the tracks and do not clear the cell, which \<^verbatim>\<open>stopCamera\<close> (lines 141 to 144) does.
\<close>

theorem startCamera_rejected_stale_stream:
  "stream (fst (startCamera (Inl ()) liveSession)) = Some hdStream
   \<and> stream (fst (startCamera (Inl ()) liveSession)) \<noteq> None
   \<and> error (fst (startCamera (Inl ()) liveSession)) = Some ''Failed to start camera''
   \<and> isLoading (fst (startCamera (Inl ()) liveSession)) = False
   \<and> selectedCamera (fst (startCamera (Inl ()) liveSession)) = ''a''
   \<and> liveTracks (snd (startCamera (Inl ()) liveSession)) = {}"
  by (simp add: liveSession_eval startCamera_def startCamera_request_def startCamera_resume_def releasePrevious_def Let_def stopTracks_def hdStream_def hdTrack_def)

section \<open>The name of the exported file\<close>

lemma digit_not_colon: "digit n \<noteq> CHR '':''"
proof -
  have "n mod 10 < length ''0123456789''" by simp
  then have "digit n \<in> set ''0123456789''"
    unfolding digit_def by (rule nth_mem)
  then show ?thesis by auto
qed

lemma downloadName_shape:
  assumes "0 \<le> date_year now" "date_year now \<le> 9999"
  shows "downloadName now =
     ''camera-capture-'' @ pad4 (nat (date_year now)) @ ''-'' @ pad2 (date_month now) @ ''-''
       @ pad2 (date_day now) @ ''T'' @ pad2 (date_hours now) @ ''-'' @ pad2 (date_minutes now)
       @ ''-'' @ pad2 (date_seconds now) @ ''.png''"
proof -
  have "take 19 (toISOString now) =
      pad4 (nat (date_year now)) @ ''-'' @ pad2 (date_month now) @ ''-''
       @ pad2 (date_day now) @ ''T'' @ pad2 (date_hours now) @ '':'' @ pad2 (date_minutes now)
       @ '':'' @ pad2 (date_seconds now)"
    using assms by (simp add: toISOString_def isoYear_def pad4_def pad2_def)
  then show ?thesis
    by (simp add: downloadName_def replaceColons_def pad2_def pad4_def digit_not_colon)
qed

text \<open>
  C2, as amended. With a captured image present, \<^verbatim>\<open>downloadPhoto\<close> asks the host to save the
  image under \<^verbatim>\<open>camera-capture-<timestamp>.png\<close>, where the timestamp is the first 19 characters
  of the ISO rendering of the time of the call of \<^verbatim>\<open>downloadPhoto\<close> (not of the capture), with
  every colon replaced by a hyphen: for a year from 0 to 9999 that is
  \<^verbatim>\<open>YYYY-MM-DDTHH-mm-ss\<close>, without milliseconds and without the final Z. It changes no cell of
  the session; with no captured image it changes nothing at all.
\<close>

theorem downloadPhoto_name:
  assumes "capturedImage s = Some img" "img \<noteq> []" "0 \<le> date_year now" "date_year now \<le> 9999"
  shows "downloadPhoto now (s, h) =
      (s, h\<lparr>hostCalls := hostCalls h @
           [Download (''camera-capture-'' @ replaceColons (take 19 (toISOString now)) @ ''.png'') img]\<rparr>)
    \<and> ''camera-capture-'' @ replaceColons (take 19 (toISOString now)) @ ''.png'' =
      ''camera-capture-'' @ pad4 (nat (date_year now)) @ ''-'' @ pad2 (date_month now) @ ''-''
       @ pad2 (date_day now) @ ''T'' @ pad2 (date_hours now) @ ''-'' @ pad2 (date_minutes now)
       @ ''-'' @ pad2 (date_seconds now) @ ''.png''
    \<and> downloadPhoto now (s\<lparr>capturedImage := None\<rparr>, h) = (s\<lparr>capturedImage := None\<rparr>, h)"
  using assms downloadName_shape[of now]
  by (simp add: downloadPhoto_def downloadName_def)

theorem downloadPhoto_name_witness:
  "downloadPhoto downloadTime (capturePhoto pngOf liveSession) =
     (fst (capturePhoto pngOf liveSession),
      (snd (capturePhoto pngOf liveSession))\<lparr>hostCalls :=
         [GetUserMedia (Some ''a'') 1920 1080,
          Download ''camera-capture-2024-01-01T12-05-30.png'' ''data:image/png;base64,frame'']\<rparr>)"
  using downloadPhoto_name[of "fst (capturePhoto pngOf liveSession)" "''data:image/png;base64,frame''"
      downloadTime "snd (capturePhoto pngOf liveSession)"] capturedSession_eval
  by (simp add: downloadTime_def pad4_def pad2_def digit_def)
     (simp add: liveSession_eval capturePhoto_def setCanvasSize_def Let_def)

text \<open>
  C2 as stated fails: an image captured at \<open>captureTime\<close> (12:00:00.000) and downloaded at
  \<open>downloadTime\<close> (12:05:30.250) is not saved under the name made from the ISO rendering of
  the capture time; and downloaded at \<open>captureTime\<close> itself it is not either, since the name
  keeps only the first 19 characters of the rendering.
\<close>

theorem downloadPhoto_name_counterexample:
  "Download (''camera-capture-'' @ replaceColons (toISOString captureTime) @ ''.png'')
       ''data:image/png;base64,frame''
     \<notin> set (hostCalls (snd (downloadPhoto downloadTime (capturePhoto pngOf liveSession))))
   \<and> Download (''camera-capture-'' @ replaceColons (toISOString captureTime) @ ''.png'')
       ''data:image/png;base64,frame''
     \<notin> set (hostCalls (snd (downloadPhoto captureTime (capturePhoto pngOf liveSession))))"
  by (simp add: liveSession_eval capturePhoto_def setCanvasSize_def Let_def pngOf_def
      downloadPhoto_def
      downloadName_def toISOString_def isoYear_def captureTime_def downloadTime_def
      pad2_def pad3_def pad4_def digit_def replaceColons_def)

section \<open>Capabilities of a started stream\<close>

text \<open>
  C3, as amended. When \<^verbatim>\<open>startCamera\<close> succeeds (the host grants a stream with a video track),
  the capabilities cell is written only if the first video track reports both a width and a
  height range: then it holds the maximum of each, with 1920 in place of a missing or zero
  width maximum and 1080 in place of a missing or zero height maximum. When a range is
  missing the cell keeps the value it had before the call.
\<close>

theorem startCamera_capabilities:
  assumes "getVideoTracks m = track # rest"
  shows "cameraCapabilities (fst (startCamera (Inr m) (s, h))) =
      (case cap_width (getCapabilities track) of
         None \<Rightarrow> cameraCapabilities s
       | Some w \<Rightarrow>
          (case cap_height (getCapabilities track) of
             None \<Rightarrow> cameraCapabilities s
           | Some hh \<Rightarrow>
               Some \<lparr>width = (case range_max w of
                                None \<Rightarrow> 1920 | Some n \<Rightarrow> if n = 0 then 1920 else n),
                     height = (case range_max hh of
                                 None \<Rightarrow> 1080 | Some n \<Rightarrow> if n = 0 then 1080 else n)\<rparr>))
    \<and> stream (fst (startCamera (Inr m) (s, h))) = Some m
    \<and> error (fst (startCamera (Inr m) (s, h))) = None
    \<and> isLoading (fst (startCamera (Inr m) (s, h))) = False"
  using assms
  by (simp add: startCamera_def startCamera_request_def startCamera_resume_def releasePrevious_def storeCapabilities_def orElse_def Let_def split: option.splits)

theorem startCamera_capabilities_witness:
  "cameraCapabilities
     (fst (startCamera (Inr hdStream) (initialSession\<lparr>selectedCamera := ''a''\<rparr>, pageHost)))
     = Some \<lparr>width = 1280, height = 720\<rparr>"
proof -
  have v: "getVideoTracks hdStream = hdTrack # []"
    by (simp add: getVideoTracks_def hdStream_def hdTrack_def)
  show ?thesis
    using startCamera_capabilities[OF v, of "initialSession\<lparr>selectedCamera := ''a''\<rparr>" pageHost]
    by (simp add: hdTrack_def)
qed

text \<open>
  C3 as stated fails: started from the initial session with a stream whose video track
  reports no width and no height range, \<^verbatim>\<open>startCamera\<close> succeeds and leaves the capabilities
  unset instead of 1920 by 1080.
\<close>

theorem startCamera_capabilities_counterexample:
  "cameraCapabilities
     (fst (startCamera (Inr bareStream) (initialSession\<lparr>selectedCamera := ''a''\<rparr>, pageHost))) = None
   \<and> stream (fst (startCamera (Inr bareStream) (initialSession\<lparr>selectedCamera := ''a''\<rparr>, pageHost)))
       = Some bareStream
   \<and> error (fst (startCamera (Inr bareStream) (initialSession\<lparr>selectedCamera := ''a''\<rparr>, pageHost)))
       = None"
  by (simp add: startCamera_def startCamera_request_def startCamera_resume_def releasePrevious_def initialSession_def pageHost_def bareStream_def
      bareTrack_def getVideoTracks_def storeCapabilities_def bindPreview_def Let_def)

section \<open>Labels of the enumerated devices\<close>

text \<open>
  C4, as amended. The label shown for a video input device with an empty label is
  \<^verbatim>\<open>Camera\<close>, a space, the first 8 characters of its device id and three dots; a device with a
  label keeps it. For the devices \<open>a\<close> (no label) and \<open>b\<close> (label Front) the labels are
  \<^verbatim>\<open>Camera a...\<close> and \<^verbatim>\<open>Front\<close>, and the selected device is \<open>a\<close>.
\<close>

theorem getCameras_labels:
  "map label (cameras (getCameras (Inr devices) s)) =
     map (\<lambda>d. if info_label d = [] then ''Camera '' @ take 8 (info_deviceId d) @ ''...''
              else info_label d)
       (filter (\<lambda>d. info_kind d = Videoinput) devices)
   \<and> map label (cameras (getCameras (Inr [deviceA, deviceB]) s)) = [''Camera a...'', ''Front'']
   \<and> selectedCamera (getCameras (Inr [deviceA, deviceB]) s) = ''a''"
  by (simp add: getCameras_def toCameraDevice_def deviceA_def deviceB_def Let_def comp_def
      split: list.splits)

text \<open>C4 as stated fails: for the two devices the labels are not \<^verbatim>\<open>Camera a\<close> and \<^verbatim>\<open>Front\<close>.\<close>

theorem getCameras_labels_counterexample:
  "map label (cameras (getCameras (Inr [deviceA, deviceB]) initialSession))
     \<noteq> [''Camera a'', ''Front'']"
  by (simp add: getCameras_def toCameraDevice_def deviceA_def deviceB_def initialSession_def)

section \<open>Stopping the camera\<close>

text \<open>
  C5, as amended. \<^verbatim>\<open>stopCamera\<close> does not write the capabilities cell: after it the session
  holds the capabilities it held before, so those of the stopped stream stay set.
\<close>

theorem stopCamera_keeps_capabilities:
  "cameraCapabilities (fst (stopCamera sh)) = cameraCapabilities (fst sh)"
  by (simp add: stopCamera_def Let_def split: option.splits)

text \<open>
  C5 as stated fails: after \<^verbatim>\<open>stopCamera\<close> on \<open>liveSession\<close> there is no stream and the
  capabilities 1280 by 720 are still set.
\<close>

theorem stopCamera_capabilities_counterexample:
  "cameraCapabilities (fst (stopCamera liveSession)) = Some \<lparr>width = 1280, height = 720\<rparr>
   \<and> stream (fst (stopCamera liveSession)) = None
   \<and> cameraCapabilities (fst (stopCamera liveSession)) \<noteq> None"
  by (simp add: liveSession_eval stopCamera_def Let_def)

text \<open>
  C8. \<^verbatim>\<open>stopCamera\<close> twice gives the session and host of \<^verbatim>\<open>stopCamera\<close> once; without a stream
  it only clears the captured image.
\<close>

theorem stopCamera_idempotent:
  "stopCamera (stopCamera sh) = stopCamera sh
   \<and> (stream (fst sh) = None \<longrightarrow> stopCamera sh = ((fst sh)\<lparr>capturedImage := None\<rparr>, snd sh))"
  by (simp add: stopCamera_def Let_def split: option.splits)

theorem stopCamera_idempotent_witness:
  "stopCamera (stopCamera liveSession) = stopCamera liveSession
   \<and> stopCamera (initialSession\<lparr>capturedImage := Some ''png''\<rparr>, pageHost)
       = (initialSession, pageHost)"
  using stopCamera_idempotent[of liveSession]
    stopCamera_idempotent[of "(initialSession\<lparr>capturedImage := Some ''png''\<rparr>, pageHost)"]
  by (simp add: initialSession_def)

section \<open>Capture and retake\<close>

text \<open>
  C7. \<^verbatim>\<open>capturePhoto\<close> without a stream, without the video or the canvas element, or with a
  canvas that gives no 2D context returns leaving the session and the host as they were.
\<close>

theorem capturePhoto_guard:
  assumes "stream (fst sh) = None \<or> videoRef (snd sh) = None \<or> canvasRef (snd sh) = None
           \<or> (\<exists>c. canvasRef (snd sh) = Some c \<and> \<not> has2d c)"
  shows "capturePhoto enc sh = sh"
  using assms by (auto simp: capturePhoto_def Let_def split: option.splits)

theorem capturePhoto_guard_witness:
  "capturePhoto pngOf (initialSession, pageHost) = (initialSession, pageHost)"
proof -
  have "stream (fst (initialSession, pageHost)) = None" by (simp add: initialSession_def)
  then show ?thesis using capturePhoto_guard[of "(initialSession, pageHost)" pngOf] by blast
qed

text \<open>
  C9. \<^verbatim>\<open>retakePhoto\<close> clears the captured image and nothing else; after \<^verbatim>\<open>capturePhoto\<close> and
  then \<^verbatim>\<open>retakePhoto\<close> the session is the one before the pair with the captured image unset,
  and the live tracks, the requests made to the host and the video element are unchanged.
\<close>

theorem retakePhoto_after_capturePhoto:
  "fst (retakePhoto (capturePhoto enc sh)) = (fst sh)\<lparr>capturedImage := None\<rparr>
   \<and> retakePhoto sh = ((fst sh)\<lparr>capturedImage := None\<rparr>, snd sh)
   \<and> liveTracks (snd (retakePhoto (capturePhoto enc sh))) = liveTracks (snd sh)
   \<and> hostCalls (snd (retakePhoto (capturePhoto enc sh))) = hostCalls (snd sh)
   \<and> videoRef (snd (retakePhoto (capturePhoto enc sh))) = videoRef (snd sh)"
  by (simp add: retakePhoto_def capturePhoto_def Let_def split: option.splits)

lemma setCanvasSize_examples:
  "setCanvasSize 300 1280 = 1280 \<and> setCanvasSize 150 0 = 0
   \<and> setCanvasSize 300 2147483647 = 2147483647 \<and> setCanvasSize 300 2147483648 = 300
   \<and> setCanvasSize 150 4294967295 = 150"
  by (simp add: setCanvasSize_def)

lemma commit_liveSession: "commit liveSession = liveSession"
  by (simp add: liveSession_eval commit_def showsImage_def)

text \<open>
  C10, as amended. A capture that passes the guards changes only the captured image of the
  session: it becomes the encoding of the canvas, sized from the capabilities when they are
  set and from the video otherwise; the live tracks and the requests made to the host are
  unchanged. Once the page shows the captured image the video element is no longer mounted,
  and capturing again changes nothing: the image is kept, not replaced.
\<close>

theorem capturePhoto_frame:
  assumes "videoRef h = Some v" "canvasRef h = Some c" "has2d c" "stream s = Some m"
  shows "fst (capturePhoto enc (s, h)) =
      s\<lparr>capturedImage := Some (enc
         (case cameraCapabilities s of
            Some caps \<Rightarrow>
              c\<lparr>canvas_width := setCanvasSize 300 (width caps),
                canvas_height := setCanvasSize 150 (height caps),
                drawn := Some (currentFrame v, setCanvasSize 300 (width caps),
                               setCanvasSize 150 (height caps))\<rparr>
          | None \<Rightarrow>
              c\<lparr>canvas_width := setCanvasSize 300 (videoWidth v),
                canvas_height := setCanvasSize 150 (videoHeight v),
                drawn := Some (currentFrame v, setCanvasSize 300 (videoWidth v),
                               setCanvasSize 150 (videoHeight v))\<rparr>))\<rparr>
    \<and> liveTracks (snd (capturePhoto enc (s, h))) = liveTracks h
    \<and> hostCalls (snd (capturePhoto enc (s, h))) = hostCalls h
    \<and> (showsImage (fst (capturePhoto enc (s, h))) \<longrightarrow>
         videoRef (snd (commit (capturePhoto enc (s, h)))) = None
         \<and> capturePhoto enc2 (commit (capturePhoto enc (s, h))) = commit (capturePhoto enc (s, h)))"
  using assms
  by (simp add: capturePhoto_def commit_def Let_def split: option.splits)

theorem capturePhoto_frame_witness:
  "fst (capturePhoto pngOf liveSession) =
     (fst liveSession)\<lparr>capturedImage := Some ''data:image/png;base64,frame''\<rparr>
   \<and> videoRef (snd (commit (capturePhoto pngOf liveSession))) = None
   \<and> capturePhoto secondPng (commit (capturePhoto pngOf liveSession))
       = commit (capturePhoto pngOf liveSession)"
  using capturePhoto_frame[of "snd liveSession"
      "\<lparr>videoWidth = 640, videoHeight = 480, currentFrame = ''frame'', srcObject = Some hdStream\<rparr>"
      "\<lparr>canvas_width = 300, canvas_height = 150, has2d = True, drawn = None\<rparr>"
      "fst liveSession" hdStream pngOf secondPng]
  by (simp add: liveSession_eval pngOf_def setCanvasSize_def showsImage_def)

text \<open>
  C10 as stated fails in its last part. On the page after a first capture from \<open>liveSession\<close>
  a second capture, whose encoding would be another image, replaces nothing: the session
  still holds the first image.
\<close>

theorem capturePhoto_replace_counterexample:
  "capturedImage (fst (perform secondPng (perform pngOf liveSession CapturePhoto) CapturePhoto))
     = Some ''data:image/png;base64,frame''
   \<and> capturedImage (fst (perform secondPng (perform pngOf liveSession CapturePhoto) CapturePhoto))
     \<noteq> Some ''data:image/png;base64,second''
   \<and> videoRef (snd (perform pngOf liveSession CapturePhoto)) = None"
  by (simp add: liveSession_eval capturePhoto_def commit_def showsImage_def setCanvasSize_def
      pngOf_def Let_def)

section \<open>One live stream at a time\<close>

lemma singleStream_startCamera:
  assumes "singleStream sh"
  shows "singleStream (startCamera response sh)"
  using assms
  by (auto simp: singleStream_def ownedTracks_def startCamera_def startCamera_request_def
      startCamera_resume_def releasePrevious_def stopTracks_def bindPreview_def
      storeCapabilities_def Let_def
      split: option.splits sum.splits list.splits)

lemma singleStream_selectDevice:
  assumes "singleStream sh"
  shows "singleStream (selectDevice d response sh)"
proof -
  have "singleStream ((fst sh)\<lparr>selectedCamera := d\<rparr>, snd sh)"
    using assms by (simp add: singleStream_def ownedTracks_def)
  then show ?thesis
    by (simp add: selectDevice_def Let_def singleStream_startCamera)
qed

lemma singleStream_capturePhoto:
  assumes "singleStream sh"
  shows "singleStream (capturePhoto enc sh)"
  using assms
  by (auto simp: singleStream_def ownedTracks_def capturePhoto_def Let_def split: option.splits)

lemma singleStream_retakePhoto:
  assumes "singleStream sh"
  shows "singleStream (retakePhoto sh)"
  using assms by (simp add: singleStream_def ownedTracks_def retakePhoto_def)

lemma singleStream_stopCamera:
  assumes "singleStream sh"
  shows "singleStream (stopCamera sh)"
  using assms
  by (auto simp: singleStream_def ownedTracks_def stopCamera_def stopTracks_def Let_def
      split: option.splits)

lemma singleStream_commit: "singleStream (commit sh) = singleStream sh"
  by (simp add: commit_def singleStream_def split: option.splits)

lemma singleStream_perform:
  assumes "singleStream sh"
  shows "singleStream (perform enc sh i)"
  using assms
  by (cases i)
     (simp_all add: singleStream_commit singleStream_startCamera singleStream_selectDevice
        singleStream_capturePhoto singleStream_retakePhoto singleStream_stopCamera)

lemma singleStream_foldl:
  "singleStream sh \<Longrightarrow> singleStream (foldl (perform enc) sh intents)"
  by (induction intents arbitrary: sh) (simp_all add: singleStream_perform)

lemma releasePrevious_none_live:
  assumes "singleStream sh"
  shows "liveTracks (releasePrevious sh) = {}"
  using assms
  by (auto simp: singleStream_def ownedTracks_def releasePrevious_def stopTracks_def
      split: option.splits)

lemma startCamera_hostCalls:
  "hostCalls (snd (startCamera response sh)) =
     hostCalls (snd sh)
       @ (case stream (fst sh) of
            None \<Rightarrow> []
          | Some old \<Rightarrow> map (\<lambda>t. StopTrack (track_id t)) (getTracks old))
       @ [streamRequest (fst sh)]"
  by (simp add: startCamera_def startCamera_request_def startCamera_resume_def
      releasePrevious_def stopTracks_def bindPreview_def Let_def
      split: option.splits sum.splits list.splits)

lemma selectDevice_split:
  "selectDevice d response sh =
     (if d \<noteq> selectedCamera (fst sh) \<and> d \<noteq> []
      then startCamera_resume response (selectDevice_request d sh)
      else selectDevice_request d sh)"
  by (simp add: selectDevice_def selectDevice_request_def startCamera_def Let_def)

lemma singleStream_liveSession: "singleStream liveSession"
  by (simp add: liveSession_eval singleStream_def ownedTracks_def hdStream_def hdTrack_def)

text \<open>
  C6, as amended. Over every sequence of device selections, stream starts, captures, retakes
  and stops in which each start is answered by the host before the next intent is performed,
  every live track belongs to the one stream the session holds, provided that was so at the
  beginning. When \<^verbatim>\<open>startCamera\<close> is entered no track is live once lines 51 to 53 have run, and
  the requests it makes to the host are, in this order, the stop of every track of the stream
  it held and then the one stream request.
\<close>

theorem startCamera_single_stream:
  assumes "singleStream sh"
  shows "singleStream (performAll enc sh intents)
    \<and> liveTracks (releasePrevious sh) = {}
    \<and> hostCalls (snd (startCamera response sh)) =
        hostCalls (snd sh)
          @ (case stream (fst sh) of
               None \<Rightarrow> []
             | Some old \<Rightarrow> map (\<lambda>t. StopTrack (track_id t)) (getTracks old))
          @ [streamRequest (fst sh)]"
  using assms
  by (simp add: performAll_def singleStream_foldl releasePrevious_none_live startCamera_hostCalls)

theorem startCamera_single_stream_witness:
  "singleStream (performAll pngOf liveSession
          [SelectDevice ''b'' (Inr bareStream), CapturePhoto, RetakePhoto,
           StartStream (Inl ()), StartStream (Inr hdStream), StopCamera])
   \<and> liveTracks (releasePrevious liveSession) = {}
   \<and> hostCalls (snd (startCamera (Inr bareStream) liveSession)) =
       [GetUserMedia (Some ''a'') 1920 1080, StopTrack 1, GetUserMedia (Some ''a'') 1920 1080]"
  using startCamera_single_stream[OF singleStream_liveSession, of pngOf
          "[SelectDevice ''b'' (Inr bareStream), CapturePhoto, RetakePhoto,
            StartStream (Inl ()), StartStream (Inr hdStream), StopCamera]" "Inr bareStream"]
  by (simp add: liveSession_eval streamRequest_def hdStream_def hdTrack_def)

text \<open>
  C6 as stated fails. From the initial session the device \<open>a\<close> is selected and then, before
  the host has answered the first request, the device \<open>b\<close>; the second call finds no stream
  to stop. The host then grants \<open>hdStream\<close> to the first request and \<open>bareStream\<close> to the
  second. The session holds \<open>bareStream\<close> only, the tracks of both streams are live, and no
  track was ever stopped.
\<close>

theorem startCamera_single_stream_counterexample:
  "liveTracks (snd (startCamera_resume (Inr bareStream)
          (startCamera_resume (Inr hdStream)
            (selectDevice_request ''b''
              (selectDevice_request ''a'' (initialSession, pageHost)))))) = {1, 2}
   \<and> stream (fst (startCamera_resume (Inr bareStream)
          (startCamera_resume (Inr hdStream)
            (selectDevice_request ''b''
              (selectDevice_request ''a'' (initialSession, pageHost)))))) = Some bareStream
   \<and> hostCalls (snd (startCamera_resume (Inr bareStream)
          (startCamera_resume (Inr hdStream)
            (selectDevice_request ''b''
              (selectDevice_request ''a'' (initialSession, pageHost))))))
       = [GetUserMedia (Some ''a'') 1920 1080, GetUserMedia (Some ''b'') 1920 1080]
   \<and> \<not> singleStream (startCamera_resume (Inr bareStream)
          (startCamera_resume (Inr hdStream)
            (selectDevice_request ''b''
              (selectDevice_request ''a'' (initialSession, pageHost)))))"
  by (simp add: selectDevice_request_def startCamera_request_def startCamera_resume_def
      releasePrevious_def streamRequest_def initialSession_def pageHost_def bindPreview_def
      getVideoTracks_def storeCapabilities_def orElse_def hdStream_def hdTrack_def
      bareStream_def bareTrack_def singleStream_def ownedTracks_def Let_def insert_commute)

end
